theory Spec2Isabelle
  imports Main
begin

section \<open>The registration script \<open>scripts/create-test-user.py\<close>\<close>

text \<open>
  The script is a straight-line Python module: one \<open>print\<close>, then a \<open>try\<close> block that
  issues one \<open>requests.post\<close>, branches on the status code and prints, with a handler
  \<open>except Exception as e\<close> that prints the exception. The embedding keeps that shape:
  statements are computations over a trace of observable events, exceptions are values
  (\<open>Inl\<close>), and the authentication service is a parameter.
\<close>

subsection \<open>Python strings\<close>

text \<open>
  A Python \<open>str\<close> is a sequence of code points (naturals below \<open>0x110000\<close>; the functions
  below are total on larger numbers, which no \<open>str\<close> holds). A text decoded from JSON can
  hold any code point, a lone surrogate included. \<open>ascii\<close> reads an ASCII literal of the
  source as such a sequence.
\<close>

type_synonym pystr = "nat list"

definition ascii :: "string \<Rightarrow> pystr" where
  "ascii s = map of_char s"

text \<open>
  The console is UTF-8 with the error mode \<open>strict\<close>: a text can be written when it holds
  no surrogate (\<open>U+D800\<close> to \<open>U+DFFF\<close>).
\<close>

definition is_surrogate :: "nat \<Rightarrow> bool" where
  "is_surrogate c = (0xD800 \<le> c \<and> c \<le> 0xDFFF)"

definition encodable :: "pystr \<Rightarrow> bool" where
  "encodable s = (filter is_surrogate s = [])"

subsection \<open>Values decoded from JSON\<close>

text \<open>
  What \<open>response.json()\<close> can return: \<open>None\<close>, a \<open>bool\<close>, an unbounded \<open>int\<close>, a \<open>float\<close>
  (identified here by its Python \<open>repr\<close>, which determines the float), a \<open>str\<close>, a \<open>list\<close>
  or a \<open>dict\<close> with string keys (an association list in insertion order; the keys of a
  Python dict are distinct). The same type describes the dict literal \<open>register_data\<close>.
\<close>

datatype jvalue =
    JNull
  | JBool bool
  | JInt int
  | JFloat string
  | JStr pystr
  | JArr "jvalue list"
  | JObj "(pystr \<times> jvalue) list"

subsection \<open>Exceptions\<close>

text \<open>
  The subclasses of \<open>Exception\<close> that can arise in the \<open>try\<close> block: a fault raised by
  \<open>requests.post\<close> (connection refused, timeout, malformed response, ...) with its
  message, the decoding error of \<open>response.json()\<close> with its message, the \<open>KeyError\<close> (with
  the key, a literal of the script) and the \<open>TypeError\<close> of the subscripts
  \<open>data['user']['id']\<close> and \<open>data['jwt']\<close>, and the \<open>UnicodeEncodeError\<close> of a \<open>print\<close> whose
  text the console cannot encode, with the offending code point and the start and end
  of the run of surrogates it opens. The messages of the library's exceptions are plain
  text (HOL strings), which the console can always encode. Exceptions that are not
  subclasses of \<open>Exception\<close> (\<open>KeyboardInterrupt\<close>, \<open>SystemExit\<close>) are outside the model.
\<close>

datatype exn =
    RequestException string
  | JSONDecodeError string
  | KeyError string
  | TypeError string
  | UnicodeEncodeError nat nat nat

subsection \<open>Python's \<open>str\<close> and \<open>repr\<close> on these values\<close>

definition digit_char :: "nat \<Rightarrow> char" where
  "digit_char d = char_of (48 + d)"

fun str_nat :: "nat \<Rightarrow> string" where
  "str_nat n = (if n < 10 then [digit_char n] else str_nat (n div 10) @ [digit_char (n mod 10)])"

declare str_nat.simps [simp del]

definition str_int :: "int \<Rightarrow> string" where
  "str_int i = (if i < 0 then CHR ''-'' # str_nat (nat (- i)) else str_nat (nat i))"

definition hex_char :: "nat \<Rightarrow> char" where
  "hex_char d = (if d < 10 then char_of (48 + d) else char_of (87 + d))"

text \<open>\<open>hex w n\<close>: the last \<open>w\<close> hexadecimal digits of \<open>n\<close>, in lower case.\<close>

fun hex :: "nat \<Rightarrow> nat \<Rightarrow> string" where
  "hex 0 n = []"
| "hex (Suc w) n = hex w (n div 16) @ [hex_char (n mod 16)]"

text \<open>
  The escape of a code point, as \<open>repr\<close> and the message of \<open>UnicodeEncodeError\<close> write it:
  \<open>\xNN\<close> up to \<open>0xFF\<close>, \<open>\uNNNN\<close> up to \<open>0xFFFF\<close>, \<open>\UNNNNNNNN\<close> above.
\<close>

definition escape :: "nat \<Rightarrow> string" where
  "escape c =
     CHR 0x5C # (if c \<le> 0xFF then CHR ''x'' # hex 2 c
                else if c \<le> 0xFFFF then CHR ''u'' # hex 4 c
                else CHR ''U'' # hex 8 c)"

text \<open>
  \<open>repr\<close> of a \<open>str\<close>: double quotes when the text has a single quote and no double quote,
  single quotes otherwise. The backslash and the chosen quote get a backslash; tab,
  newline and return are \<open>\t\<close>, \<open>\n\<close>, \<open>\r\<close>; the other ASCII control characters are escaped;
  the rest of ASCII stays; a code point from \<open>0x7F\<close> on stays when it is printable and is
  escaped when it is not. Which non-ASCII code points are printable is decided by the
  Unicode database of the Python that runs the script (\<open>str.isprintable\<close>); that table is
  the parameter \<open>isprintable\<close> of the model.
\<close>

type_synonym unicode_table = "nat \<Rightarrow> bool"

definition repr_char :: "unicode_table \<Rightarrow> nat \<Rightarrow> nat \<Rightarrow> pystr" where
  "repr_char isprintable q c =
     (if c = q \<or> c = 0x5C then [0x5C, c]
      else if c = 0x09 then ascii [CHR 0x5C, CHR ''t'']
      else if c = 0x0A then ascii [CHR 0x5C, CHR ''n'']
      else if c = 0x0D then ascii [CHR 0x5C, CHR ''r'']
      else if c < 0x20 \<or> c = 0x7F then ascii (escape c)
      else if c < 0x7F then [c]
      else if isprintable c then [c]
      else ascii (escape c))"

definition repr_str :: "unicode_table \<Rightarrow> pystr \<Rightarrow> pystr" where
  "repr_str isprintable s =
     (let q = (if 0x27 \<in> set s \<and> 0x22 \<notin> set s then 0x22 else 0x27)
      in q # concat (map (repr_char isprintable q) s) @ [q])"

fun join :: "pystr \<Rightarrow> pystr list \<Rightarrow> pystr" where
  "join sep [] = []"
| "join sep [x] = x"
| "join sep (x # y # ys) = x @ sep @ join sep (y # ys)"

primrec repr :: "unicode_table \<Rightarrow> jvalue \<Rightarrow> pystr" where
  "repr isprintable JNull = ascii ''None''"
| "repr isprintable (JBool b) = (if b then ascii ''True'' else ascii ''False'')"
| "repr isprintable (JInt i) = ascii (str_int i)"
| "repr isprintable (JFloat r) = ascii r"
| "repr isprintable (JStr s) = repr_str isprintable s"
| "repr isprintable (JArr xs) = ascii ''['' @ join (ascii '', '') (map (repr isprintable) xs) @ ascii '']''"
| "repr isprintable (JObj kvs) =
     ascii ''{''
     @ join (ascii '', '')
         (map (\<lambda>(k, r). repr_str isprintable k @ ascii '': '' @ r)
            (map (map_prod id (repr isprintable)) kvs))
     @ ascii ''}''"

text \<open>\<open>str(v)\<close>, which is also what an f-string field \<open>{v}\<close> and \<open>print(v)\<close> produce.\<close>

definition str :: "unicode_table \<Rightarrow> jvalue \<Rightarrow> pystr" where
  "str isprintable v = (case v of JStr s \<Rightarrow> s | _ \<Rightarrow> repr isprintable v)"

definition quoted :: "string \<Rightarrow> string" where
  "quoted s = CHR 0x27 # s @ [CHR 0x27]"

text \<open>
  \<open>str(e)\<close> of an exception: its message; for a \<open>KeyError\<close>, the \<open>repr\<close> of the key; for a
  \<open>UnicodeEncodeError\<close> of the UTF-8 codec, the text CPython builds from the offending
  code point (when the run is one code point long) or from the positions of the run.
\<close>

fun str_exn :: "unicode_table \<Rightarrow> exn \<Rightarrow> pystr" where
  "str_exn isprintable (RequestException m) = ascii m"
| "str_exn isprintable (JSONDecodeError m) = ascii m"
| "str_exn isprintable (KeyError k) = repr_str isprintable (ascii k)"
| "str_exn isprintable (TypeError m) = ascii m"
| "str_exn isprintable (UnicodeEncodeError bad start end) =
     ascii (if end = start + 1
        then quoted ''utf-8'' @ '' codec can't encode character '' @ quoted (escape bad)
               @ '' in position '' @ str_nat start @ '': surrogates not allowed''
        else quoted ''utf-8'' @ '' codec can't encode characters in position '' @ str_nat start
               @ ''-'' @ str_nat (end - 1) @ '': surrogates not allowed'')"

subsection \<open>Subscripting with a string key\<close>

text \<open>
  \<open>v[k]\<close> for a literal key \<open>k\<close>: a dict returns the value or raises \<open>KeyError(k)\<close>; every
  other decoded value raises \<open>TypeError\<close> (messages of CPython 3.11 and later).
\<close>

fun subscript :: "jvalue \<Rightarrow> string \<Rightarrow> exn + jvalue" where
  "subscript (JObj kvs) k =
     (case map_of kvs (ascii k) of Some v \<Rightarrow> Inr v | None \<Rightarrow> Inl (KeyError k))"
| "subscript (JArr xs) k = Inl (TypeError ''list indices must be integers or slices, not str'')"
| "subscript (JStr s) k = Inl (TypeError (''string indices must be integers, not '' @ quoted ''str''))"
| "subscript JNull k = Inl (TypeError (quoted ''NoneType'' @ '' object is not subscriptable''))"
| "subscript (JBool b) k = Inl (TypeError (quoted ''bool'' @ '' object is not subscriptable''))"
| "subscript (JInt i) k = Inl (TypeError (quoted ''int'' @ '' object is not subscriptable''))"
| "subscript (JFloat r) k = Inl (TypeError (quoted ''float'' @ '' object is not subscriptable''))"

subsection \<open>The HTTP response and the service\<close>

text \<open>
  The fields of a \<open>requests.Response\<close>: \<open>status_code\<close>, the raw body (\<open>response.text\<close>, here
  \<open>body_text\<close>), and the outcome of the method \<open>json()\<close> on that body (the decoder is the
  library's, so its outcome comes with the response). The service maps the URL and the
  JSON payload of a POST to what \<open>requests.post\<close> does: raise, or return a response.
\<close>

record response =
  status_code :: int
  body_text :: pystr
  json :: "exn + jvalue"

type_synonym service = "string \<Rightarrow> jvalue \<Rightarrow> exn + response"

subsection \<open>Statements as computations over a trace\<close>

datatype event =
    Print pystr
  | Post string jvalue

type_synonym 'a py = "event list \<Rightarrow> (exn + 'a) \<times> event list"

definition py_lift :: "exn + 'a \<Rightarrow> 'a py" where
  "py_lift r = (\<lambda>tr. (r, tr))"

definition py_bind :: "'a py \<Rightarrow> ('a \<Rightarrow> 'b py) \<Rightarrow> 'b py" where
  "py_bind m f = (\<lambda>tr. case m tr of (Inl e, tr') \<Rightarrow> (Inl e, tr') | (Inr x, tr') \<Rightarrow> f x tr')"

definition try_except :: "'a py \<Rightarrow> (exn \<Rightarrow> 'a py) \<Rightarrow> 'a py" where
  "try_except m h = (\<lambda>tr. case m tr of (Inl e, tr') \<Rightarrow> h e tr' | (Inr x, tr') \<Rightarrow> (Inr x, tr'))"

text \<open>
  The error of encoding \<open>s\<close>: the codec stops at the first surrogate and reports it with
  its position and the end of the run of surrogates that starts there.
\<close>

definition encode_error :: "pystr \<Rightarrow> exn" where
  "encode_error s =
     (let start = length (takeWhile (\<lambda>c. \<not> is_surrogate c) s);
          run_length = length (takeWhile is_surrogate (drop start s))
      in UnicodeEncodeError (s ! start) start (start + run_length))"

text \<open>
  \<open>print(s)\<close> writes the line when the console can encode it; otherwise nothing of it is
  written and \<open>UnicodeEncodeError\<close> is raised.
\<close>

definition print :: "pystr \<Rightarrow> unit py" where
  "print s = (\<lambda>tr. if encodable s then (Inr (), tr @ [Print s]) else (Inl (encode_error s), tr))"

definition requests_post :: "service \<Rightarrow> string \<Rightarrow> jvalue \<Rightarrow> response py" where
  "requests_post srv url payload = (\<lambda>tr. (srv url payload, tr @ [Post url payload]))"

subsection \<open>The script\<close>

definition BASE_URL :: string where
  "BASE_URL = ''http://localhost:1341''"

definition register_data :: jvalue where
  "register_data = JObj
     [(ascii ''username'', JStr (ascii ''testsysadmin'')),
      (ascii ''email'', JStr (ascii ''testsysadmin@test.com'')),
      (ascii ''password'', JStr (ascii ''TestAdmin123!''))]"

text \<open>
  The emoji that open the script's messages: \<open>U+2705\<close> (check mark), \<open>U+1F4DD\<close> (memo),
  \<open>U+26A0 U+FE0F\<close> (warning sign) and \<open>U+274C\<close> (cross mark).
\<close>

definition check_mark :: pystr where
  "check_mark = [0x2705]"

definition memo :: pystr where
  "memo = [0x1F4DD]"

definition warning_sign :: pystr where
  "warning_sign = [0x26A0, 0xFE0F]"

definition cross_mark :: pystr where
  "cross_mark = [0x274C]"

definition on_success :: "unicode_table \<Rightarrow> response \<Rightarrow> unit py" where
  "on_success isprintable response =
     py_bind (py_lift (json response)) (\<lambda>data.
     py_bind (py_lift (subscript data ''user'')) (\<lambda>user.
     py_bind (py_lift (subscript user ''id'')) (\<lambda>user_id.
     py_bind (py_lift (subscript data ''jwt'')) (\<lambda>token.
     py_bind (print (check_mark @ ascii '' User created with ID: '' @ str isprintable user_id)) (\<lambda>_.
     py_bind (print (memo @ ascii '' JWT Token: '' @ str isprintable token)) (\<lambda>_.
     py_bind (print (0x0A # warning_sign @ ascii ''  Note: User role is 'reguser' by default'')) (\<lambda>_.
     py_bind (print (ascii ''To make this user a sysadmin, update the database:'')) (\<lambda>_.
     print (ascii ''UPDATE up_users SET userRole='sysadmin' WHERE id='' @ str isprintable user_id
              @ ascii '';'')))))))))"

definition on_failure :: "unicode_table \<Rightarrow> response \<Rightarrow> unit py" where
  "on_failure isprintable response =
     py_bind (print (cross_mark @ ascii '' Registration failed: ''
                       @ ascii (str_int (status_code response)))) (\<lambda>_.
     py_bind (py_lift (json response)) (\<lambda>body.
     print (str isprintable body)))"

definition try_body :: "unicode_table \<Rightarrow> service \<Rightarrow> unit py" where
  "try_body isprintable srv =
     py_bind (requests_post srv (BASE_URL @ ''/api/auth/local/register'') register_data) (\<lambda>response.
     if status_code response = 200 then on_success isprintable response
     else on_failure isprintable response)"

definition handler :: "unicode_table \<Rightarrow> exn \<Rightarrow> unit py" where
  "handler isprintable e = print (cross_mark @ ascii '' Error: '' @ str_exn isprintable e)"

definition main :: "unicode_table \<Rightarrow> service \<Rightarrow> unit py" where
  "main isprintable srv =
     py_bind (print (ascii ''Step 1: Registering test user...'')) (\<lambda>_.
     try_except (try_body isprintable srv) (handler isprintable))"

text \<open>
  A run starts from the empty trace. The process exits with 0 when the module finishes and
  with 1 when an exception leaves it.
\<close>

definition run :: "unicode_table \<Rightarrow> service \<Rightarrow> (exn + unit) \<times> event list" where
  "run isprintable srv = main isprintable srv []"

definition exit_code :: "unicode_table \<Rightarrow> service \<Rightarrow> int" where
  "exit_code isprintable srv = (case fst (run isprintable srv) of Inr _ \<Rightarrow> 0 | Inl _ \<Rightarrow> 1)"

fun printed :: "event list \<Rightarrow> pystr list" where
  "printed [] = []"
| "printed (Print s # es) = s # printed es"
| "printed (Post url payload # es) = printed es"

fun posted :: "event list \<Rightarrow> (string \<times> jvalue) list" where
  "posted [] = []"
| "posted (Print s # es) = posted es"
| "posted (Post url payload # es) = (url, payload) # posted es"

definition stdout :: "unicode_table \<Rightarrow> service \<Rightarrow> pystr list" where
  "stdout isprintable srv = printed (snd (run isprintable srv))"

definition requests_sent :: "unicode_table \<Rightarrow> service \<Rightarrow> (string \<times> jvalue) list" where
  "requests_sent isprintable srv = posted (snd (run isprintable srv))"

text \<open>A text occurs in a line: the line holds it as a contiguous part.\<close>

fun occurs_in :: "pystr \<Rightarrow> pystr \<Rightarrow> bool" where
  "occurs_in s [] = (s = [])"
| "occurs_in s (c # cs) = (take (length s) (c # cs) = s \<or> occurs_in s cs)"

subsection \<open>Example services\<close>

text \<open>The URL the script builds from \<open>BASE_URL\<close>, written out.\<close>

abbreviation (input) register_url :: string where
  "register_url \<equiv> ''http://localhost:1341/api/auth/local/register''"

definition dq :: "string \<Rightarrow> string" where
  "dq s = CHR 0x22 # s @ [CHR 0x22]"

text \<open>
  The Unicode table for the examples, which hold code points up to \<open>U+00FF\<close> and
  surrogates only: of \<open>U+007F\<close> to \<open>U+00FF\<close> the printable ones are \<open>U+00A1\<close> to \<open>U+00FF\<close>
  without the soft hyphen \<open>U+00AD\<close>, and no surrogate is printable.
\<close>

definition latin1_table :: unicode_table where
  "latin1_table c = ((0xA1 \<le> c \<and> c < 0xAD) \<or> (0xAD < c \<and> c \<le> 0xFF))"

text \<open>A successful registration: status 200, a user object with its id, and a token.\<close>

definition resp_ok :: response where
  "resp_ok = \<lparr>status_code = 200,
     body_text = ascii (''{'' @ dq ''jwt'' @ '':'' @ dq ''abc'' @ '','' @ dq ''user'' @ '':{'' @ dq ''id''
        @ '':7,'' @ dq ''username'' @ '':'' @ dq ''testsysadmin'' @ ''}}''),
     json = Inr (JObj [(ascii ''jwt'', JStr (ascii ''abc'')),
        (ascii ''user'', JObj [(ascii ''id'', JInt 7),
           (ascii ''username'', JStr (ascii ''testsysadmin''))])])\<rparr>"

definition srv_ok :: service where
  "srv_ok url payload = Inr resp_ok"

text \<open>
  Status 200 and the expected shape, with a token that is one lone surrogate (the JSON
  text \<open>"\ud800"\<close>, which the decoder accepts).
\<close>

definition resp_surrogate :: response where
  "resp_surrogate = \<lparr>status_code = 200,
     body_text = ascii (''{'' @ dq ''jwt'' @ '':'' @ dq (CHR 0x5C # ''ud800'') @ '','' @ dq ''user''
        @ '':{'' @ dq ''id'' @ '':7}}''),
     json = Inr (JObj [(ascii ''jwt'', JStr [0xD800]),
        (ascii ''user'', JObj [(ascii ''id'', JInt 7)])])\<rparr>"

definition srv_surrogate :: service where
  "srv_surrogate url payload = Inr resp_surrogate"

text \<open>Status 200 with a user object and no \<open>jwt\<close> key.\<close>

definition resp_no_jwt :: response where
  "resp_no_jwt = \<lparr>status_code = 200,
     body_text = ascii (''{'' @ dq ''user'' @ '':{'' @ dq ''id'' @ '':7}}''),
     json = Inr (JObj [(ascii ''user'', JObj [(ascii ''id'', JInt 7)])])\<rparr>"

definition srv_no_jwt :: service where
  "srv_no_jwt url payload = Inr resp_no_jwt"

text \<open>
  The account exists already: status 400 with a JSON error body, whose message holds a
  no-break space (\<open>U+00A0\<close>) between its two words.
\<close>

definition resp_taken :: response where
  "resp_taken = \<lparr>status_code = 400,
     body_text = ascii (''{'' @ dq ''data'' @ '':null,'' @ dq ''message'' @ '':'' @ [CHR 0x22]
        @ ''already'') @ [0xA0] @ ascii (''taken'' @ [CHR 0x22] @ ''}''),
     json = Inr (JObj [(ascii ''data'', JNull),
        (ascii ''message'', JStr (ascii ''already'' @ 0xA0 # ascii ''taken''))])\<rparr>"

definition srv_taken :: service where
  "srv_taken url payload = Inr resp_taken"

text \<open>The same answer, given to the registration request only.\<close>

definition srv_strict :: service where
  "srv_strict url payload =
     (if url = register_url \<and> payload = register_data then Inr resp_taken
      else Inl (RequestException ''Not Found''))"

text \<open>Status 201 with the body of a successful registration, token included.\<close>

definition resp_created :: response where
  "resp_created = \<lparr>status_code = 201,
     body_text = ascii (''{'' @ dq ''jwt'' @ '':'' @ dq ''abc'' @ '','' @ dq ''user'' @ '':{'' @ dq ''id''
        @ '':7}}''),
     json = Inr (JObj [(ascii ''jwt'', JStr (ascii ''abc'')),
        (ascii ''user'', JObj [(ascii ''id'', JInt 7)])])\<rparr>"

definition srv_created :: service where
  "srv_created url payload = Inr resp_created"

text \<open>A gateway answering status 502 with a plain-text body, which \<open>json()\<close> cannot decode.\<close>

definition resp_gateway :: response where
  "resp_gateway = \<lparr>status_code = 502, body_text = ascii ''Bad Gateway'',
     json = Inl (JSONDecodeError ''Expecting value: line 1 column 1 (char 0)'')\<rparr>"

definition srv_gateway :: service where
  "srv_gateway url payload = Inr resp_gateway"


subsection \<open>Computations that only print\<close>

definition prints_only :: "'a py \<Rightarrow> bool" where
  "prints_only m = (\<forall>tr. \<exists>r out. m tr = (r, tr @ map Print out))"

section \<open>Encodable texts\<close>

lemma encodable_Nil [simp]: "encodable []"
  by (simp add: encodable_def)

lemma encodable_Cons [simp]: "encodable (c # s) \<longleftrightarrow> \<not> is_surrogate c \<and> encodable s"
  by (simp add: encodable_def)

lemma encodable_append [simp]: "encodable (s @ t) \<longleftrightarrow> encodable s \<and> encodable t"
  by (simp add: encodable_def)

lemma encodable_concat: "(\<And>s. s \<in> set ss \<Longrightarrow> encodable s) \<Longrightarrow> encodable (concat ss)"
  by (induction ss) simp_all

lemma of_char_not_surrogate [simp]: "\<not> is_surrogate (of_char c)"
  using nat_of_char_less_256 [of c] unfolding is_surrogate_def by arith

lemma encodable_ascii [simp]: "encodable (ascii s)"
  by (induction s) (simp_all add: ascii_def)

lemma ascii_append: "ascii (s @ t) = ascii s @ ascii t"
  by (simp add: ascii_def)

lemma encodable_marks [simp]:
  "encodable check_mark" "encodable memo" "encodable warning_sign" "encodable cross_mark"
  by (simp_all add: check_mark_def memo_def warning_sign_def cross_mark_def is_surrogate_def)

lemma encodable_repr_char:
  assumes "\<not> is_surrogate c"
  shows "encodable (repr_char isprintable q c)"
  using assms by (simp add: repr_char_def is_surrogate_def)

lemma encodable_repr_str_ascii [simp]: "encodable (repr_str isprintable (ascii k))"
proof -
  have "encodable (concat (map (repr_char isprintable q) (ascii k)))" for q
    by (rule encodable_concat) (auto simp: ascii_def encodable_repr_char)
  then show ?thesis
    by (simp add: repr_str_def Let_def is_surrogate_def)
qed

text \<open>The text of every exception can be written: the handler's \<open>print\<close> cannot fail.\<close>

lemma encodable_str_exn [simp]: "encodable (str_exn isprintable e)"
  by (cases e) simp_all

subsection \<open>Evaluating escapes and encoding errors\<close>

lemma hex_2: "hex 2 n = [hex_char (n div 16 mod 16), hex_char (n mod 16)]"
proof -
  have a: "hex (Suc (Suc 0)) n = [hex_char (n div 16 mod 16), hex_char (n mod 16)]"
    by simp
  have b: "Suc (Suc 0) = 2" by simp
  from a [unfolded b] show ?thesis .
qed

lemma hex_4:
  "hex 4 n = [hex_char (n div 16 div 16 div 16 mod 16), hex_char (n div 16 div 16 mod 16),
     hex_char (n div 16 mod 16), hex_char (n mod 16)]"
proof -
  have a: "hex (Suc (Suc (Suc (Suc 0)))) n =
     [hex_char (n div 16 div 16 div 16 mod 16), hex_char (n div 16 div 16 mod 16),
      hex_char (n div 16 mod 16), hex_char (n mod 16)]"
    by simp
  have b: "Suc (Suc (Suc (Suc 0))) = 4" by simp
  from a [unfolded b] show ?thesis .
qed

lemma hex_char_values:
  "hex_char 0 = CHR ''0''" "hex_char 8 = CHR ''8''" "hex_char 10 = CHR ''a''" "hex_char 13 = CHR ''d''"
  by code_simp+

lemma str_int_values:
  "str_int 7 = ''7''" "str_int 201 = ''201''" "str_int 400 = ''400''" "str_int 502 = ''502''"
  by code_simp+

lemma str_nat_13: "str_nat 13 = ''13''"
  by code_simp

text \<open>A text whose only surrogate is its last code point: the error names that one.\<close>

lemma encode_error_last:
  assumes "encodable s" and "is_surrogate c"
  shows "encode_error (s @ [c]) = UnicodeEncodeError c (length s) (length s + 1)"
proof -
  from assms(1) have all: "\<forall>x\<in>set s. \<not> is_surrogate x"
    by (simp add: encodable_def filter_empty_conv)
  with assms(2) have "takeWhile (\<lambda>x. \<not> is_surrogate x) (s @ [c]) = s"
    by (simp add: takeWhile_append2)
  with assms(2) show ?thesis
    by (simp add: encode_error_def Let_def)
qed

section \<open>What a run does, branch by branch\<close>

lemma print_encodable: "encodable s \<Longrightarrow> print s tr = (Inr (), tr @ [Print s])"
  by (simp add: print_def)

lemma print_not_encodable: "\<not> encodable s \<Longrightarrow> print s tr = (Inl (encode_error s), tr)"
  by (simp add: print_def)

lemma handler_eq:
  "handler isprintable e tr = (Inr (), tr @ [Print (cross_mark @ ascii '' Error: '' @ str_exn isprintable e)])"
  by (simp add: handler_def print_encodable)

lemmas py_defs = py_bind_def py_lift_def try_except_def requests_post_def

lemma url_eq: "BASE_URL @ ''/api/auth/local/register'' = register_url"
  by (simp add: BASE_URL_def)

text \<open>A run reads the service at the fixed request only.\<close>

lemma main_eq:
  "run isprintable srv =
     (case srv register_url register_data of
        Inl e \<Rightarrow> handler isprintable e
                 [Print (ascii ''Step 1: Registering test user...''), Post register_url register_data]
      | Inr r \<Rightarrow> try_except
                 (if status_code r = 200 then on_success isprintable r else on_failure isprintable r)
                 (handler isprintable)
                 [Print (ascii ''Step 1: Registering test user...''), Post register_url register_data])"
  by (simp add: run_def main_def try_body_def py_defs print_encodable url_eq
        split: sum.splits prod.splits)

lemma run_raise:
  assumes "srv register_url register_data = Inl e"
  shows "run isprintable srv =
     (Inr (), [Print (ascii ''Step 1: Registering test user...''), Post register_url register_data,
       Print (cross_mark @ ascii '' Error: '' @ str_exn isprintable e)])"
  using assms by (simp add: main_eq handler_eq)

lemma run_not_200:
  assumes "srv register_url register_data = Inr r" "status_code r \<noteq> 200"
  shows "run isprintable srv =
     (Inr (), [Print (ascii ''Step 1: Registering test user...''), Post register_url register_data,
       Print (cross_mark @ ascii '' Registration failed: '' @ ascii (str_int (status_code r))),
       Print (case json r of
           Inl e \<Rightarrow> cross_mark @ ascii '' Error: '' @ str_exn isprintable e
         | Inr v \<Rightarrow> if encodable (str isprintable v) then str isprintable v
                    else cross_mark @ ascii '' Error: ''
                           @ str_exn isprintable (encode_error (str isprintable v)))])"
  using assms
  by (simp add: main_eq on_failure_def py_defs print_encodable print_not_encodable handler_eq
        split: sum.splits)

lemma subscript_Inr:
  "subscript d k = Inr v \<longleftrightarrow> (\<exists>kvs. d = JObj kvs \<and> map_of kvs (ascii k) = Some v)"
  by (cases d) (auto split: option.splits)

text \<open>
  Status 200 and the expected shape: the identifier line, the token line and the three
  lines of the reminder, as far as the console can encode them; the first line it cannot
  encode raises, and the handler prints that exception instead.
\<close>

lemma run_200_shape:
  assumes "srv register_url register_data = Inr r" "status_code r = 200"
    "json r = Inr (JObj kvs)" "map_of kvs (ascii ''user'') = Some (JObj usr)"
    "map_of usr (ascii ''id'') = Some i" "map_of kvs (ascii ''jwt'') = Some t"
  shows "run isprintable srv =
     (Inr (), [Print (ascii ''Step 1: Registering test user...''), Post register_url register_data]
       @ (if \<not> encodable (str isprintable i) then
            [Print (cross_mark @ ascii '' Error: '' @ str_exn isprintable (encode_error
               (check_mark @ ascii '' User created with ID: '' @ str isprintable i)))]
          else if \<not> encodable (str isprintable t) then
            [Print (check_mark @ ascii '' User created with ID: '' @ str isprintable i),
             Print (cross_mark @ ascii '' Error: '' @ str_exn isprintable (encode_error
               (memo @ ascii '' JWT Token: '' @ str isprintable t)))]
          else
            [Print (check_mark @ ascii '' User created with ID: '' @ str isprintable i),
             Print (memo @ ascii '' JWT Token: '' @ str isprintable t),
             Print (0x0A # warning_sign @ ascii ''  Note: User role is 'reguser' by default''),
             Print (ascii ''To make this user a sysadmin, update the database:''),
             Print (ascii ''UPDATE up_users SET userRole='sysadmin' WHERE id='' @ str isprintable i
                      @ ascii '';'')]))"
  using assms
  by (simp add: main_eq on_success_def py_defs print_encodable print_not_encodable handler_eq
        is_surrogate_def)

text \<open>
  Status 200 with anything else: one of \<open>json()\<close> and the three subscripts raises, before
  the first \<open>print\<close> of the branch, and the handler prints that exception.
\<close>

lemma run_200_other:
  assumes "srv register_url register_data = Inr r" "status_code r = 200"
    "\<not> (\<exists>kvs usr i t. json r = Inr (JObj kvs) \<and> map_of kvs (ascii ''user'') = Some (JObj usr)
          \<and> map_of usr (ascii ''id'') = Some i \<and> map_of kvs (ascii ''jwt'') = Some t)"
  shows "\<exists>e. run isprintable srv =
     (Inr (), [Print (ascii ''Step 1: Registering test user...''), Post register_url register_data,
        Print (cross_mark @ ascii '' Error: '' @ str_exn isprintable e)])"
proof (cases "json r")
  case (Inl e)
  with assms(1,2) show ?thesis
    by (auto simp: main_eq on_success_def handler_eq py_defs)
next
  case (Inr d)
  show ?thesis
  proof (cases "subscript d ''user''")
    case (Inl e)
    with Inr assms(1,2) show ?thesis
      by (auto simp: main_eq on_success_def handler_eq py_defs)
  next
    case user: (Inr usr)
    show ?thesis
    proof (cases "subscript usr ''id''")
      case (Inl e)
      with user Inr assms(1,2) show ?thesis
        by (auto simp: main_eq on_success_def handler_eq py_defs)
    next
      case uid: (Inr i)
      show ?thesis
      proof (cases "subscript d ''jwt''")
        case (Inl e)
        with uid user Inr assms(1,2) show ?thesis
          by (auto simp: main_eq on_success_def handler_eq py_defs)
      next
        case tok: (Inr t)
        from user tok uid Inr assms(3) have False
          by (auto simp: subscript_Inr)
        then show ?thesis ..
      qed
    qed
  qed
qed

subsection \<open>The shape of every trace\<close>

lemma prints_only_print: "prints_only (print s)"
  unfolding prints_only_def
proof
  fix tr
  show "\<exists>r out. print s tr = (r, tr @ map Print out)"
  proof (cases "encodable s")
    case True
    then have "print s tr = (Inr (), tr @ map Print [s])" by (simp add: print_def)
    then show ?thesis by blast
  next
    case False
    then have "print s tr = (Inl (encode_error s), tr @ map Print [])" by (simp add: print_def)
    then show ?thesis by blast
  qed
qed

lemma prints_only_lift: "prints_only (py_lift x)"
  unfolding prints_only_def
proof
  fix tr
  have "py_lift x tr = (x, tr @ map Print [])" by (simp add: py_lift_def)
  then show "\<exists>r out. py_lift x tr = (r, tr @ map Print out)" by blast
qed

lemma prints_only_bind:
  assumes "prints_only m" and "\<And>x. prints_only (f x)"
  shows "prints_only (py_bind m f)"
  unfolding prints_only_def
proof
  fix tr
  from assms(1) obtain r out where m: "m tr = (r, tr @ map Print out)"
    unfolding prints_only_def by blast
  show "\<exists>r out. py_bind m f tr = (r, tr @ map Print out)"
  proof (cases r)
    case (Inl e)
    with m have "py_bind m f tr = (Inl e, tr @ map Print out)" by (simp add: py_bind_def)
    then show ?thesis by blast
  next
    case (Inr x)
    from assms(2) [of x] obtain r' out' where
      "f x (tr @ map Print out) = (r', (tr @ map Print out) @ map Print out')"
      unfolding prints_only_def by blast
    with m Inr have "py_bind m f tr = (r', tr @ map Print (out @ out'))" by (simp add: py_bind_def)
    then show ?thesis by blast
  qed
qed

lemma prints_only_on_success: "prints_only (on_success isprintable r)"
  unfolding on_success_def
  by (intro prints_only_bind prints_only_lift prints_only_print)

lemma prints_only_on_failure: "prints_only (on_failure isprintable r)"
  unfolding on_failure_def
  by (intro prints_only_bind prints_only_lift prints_only_print)

text \<open>Whatever a printing block of the \<open>try\<close> does, with the handler the run ends normally.\<close>

lemma try_except_handler:
  assumes "prints_only m"
  shows "\<exists>out. try_except m (handler isprintable) tr = (Inr (), tr @ map Print out)"
proof -
  from assms obtain r out where m: "m tr = (r, tr @ map Print out)"
    unfolding prints_only_def by blast
  show ?thesis
  proof (cases r)
    case (Inl e)
    with m have "try_except m (handler isprintable) tr =
        (Inr (), tr @ map Print (out @ [cross_mark @ ascii '' Error: '' @ str_exn isprintable e]))"
      by (simp add: try_except_def handler_eq)
    then show ?thesis by blast
  next
    case (Inr x)
    with m have "try_except m (handler isprintable) tr = (Inr (), tr @ map Print out)"
      by (simp add: try_except_def)
    then show ?thesis by blast
  qed
qed

text \<open>In every branch: the first print, the request, then prints only, and a normal end.\<close>

lemma run_trace:
  "\<exists>out. run isprintable srv = (Inr (), Print (ascii ''Step 1: Registering test user...'')
       # Post register_url register_data # map Print out)"
proof (cases "srv register_url register_data")
  case (Inl e)
  from run_raise [of srv e isprintable, OF Inl] show ?thesis
    by (intro exI [of _ "[cross_mark @ ascii '' Error: '' @ str_exn isprintable e]"]) simp
next
  case (Inr r)
  have "prints_only (if status_code r = 200 then on_success isprintable r else on_failure isprintable r)"
    by (simp add: prints_only_on_success prints_only_on_failure)
  from try_except_handler [OF this, of isprintable
      "[Print (ascii ''Step 1: Registering test user...''), Post register_url register_data]"]
  show ?thesis
    by (simp add: main_eq Inr)
qed

lemma big_neq_of_char: "256 \<le> n \<Longrightarrow> (n::nat) \<noteq> of_char d"
  using nat_of_char_less_256 [of d] by arith

lemma printed_map_Print: "printed (map Print out) = out"
  by (induction out) simp_all

lemma posted_map_Print: "posted (map Print out) = []"
  by (induction out) simp_all

section \<open>The claims\<close>

text \<open>
  C1. In every run the script issues its POST to
  \<open>http://localhost:1341/api/auth/local/register\<close>, the base URL followed by the path,
  and the JSON value it hands to \<open>requests.post\<close> is the object with the keys
  \<open>username\<close>, \<open>email\<close> and \<open>password\<close> and the three literal values, whatever the
  service does.
\<close>

theorem C1_request_is_fixed:
  "requests_sent isprintable srv =
     [(''http://localhost:1341/api/auth/local/register'',
       JObj [(ascii ''username'', JStr (ascii ''testsysadmin'')),
             (ascii ''email'', JStr (ascii ''testsysadmin@test.com'')),
             (ascii ''password'', JStr (ascii ''TestAdmin123!''))])]"
proof -
  obtain out where "run isprintable srv = (Inr (), Print (ascii ''Step 1: Registering test user...'')
       # Post register_url register_data # map Print out)"
    using run_trace [of isprintable srv] ..
  then show ?thesis
    by (simp add: requests_sent_def posted_map_Print register_data_def)
qed

text \<open>
  C2, as the claim words it, fails: a body of the expected shape whose token is a lone
  surrogate (the JSON text \<open>"\ud800"\<close>) is decoded, the identifier line is printed, and the
  \<open>print\<close> of the token line raises \<open>UnicodeEncodeError\<close>, which the handler prints. No
  token line and no reminder follow.
\<close>

theorem C2_lone_surrogate_counterexample:
  "srv_surrogate ''http://localhost:1341/api/auth/local/register'' register_data = Inr resp_surrogate
   \<and> status_code resp_surrogate = 200
   \<and> json resp_surrogate = Inr (JObj [(ascii ''jwt'', JStr [0xD800]),
         (ascii ''user'', JObj [(ascii ''id'', JInt 7)])])
   \<and> stdout latin1_table srv_surrogate =
       [ascii ''Step 1: Registering test user...'',
        check_mark @ ascii '' User created with ID: 7'',
        cross_mark @ ascii ('' Error: '' @ quoted ''utf-8'' @ '' codec can't encode character ''
           @ quoted (CHR 0x5C # ''ud800'') @ '' in position 13: surrogates not allowed'')]"
proof -
  have r: "srv_surrogate register_url register_data = Inr resp_surrogate"
    by (simp add: srv_surrogate_def)
  have s: "status_code resp_surrogate = 200"
    by (simp add: resp_surrogate_def)
  have j: "json resp_surrogate = Inr (JObj [(ascii ''jwt'', JStr [0xD800]),
         (ascii ''user'', JObj [(ascii ''id'', JInt 7)])])"
    by (simp add: resp_surrogate_def)
  have u: "map_of [(ascii ''jwt'', JStr [0xD800]), (ascii ''user'', JObj [(ascii ''id'', JInt 7)])]
      (ascii ''user'') = Some (JObj [(ascii ''id'', JInt 7)])"
    by (simp add: ascii_def)
  have i: "map_of [(ascii ''id'', JInt 7)] (ascii ''id'') = Some (JInt 7)"
    by simp
  have t: "map_of [(ascii ''jwt'', JStr [0xD800]), (ascii ''user'', JObj [(ascii ''id'', JInt 7)])]
      (ascii ''jwt'') = Some (JStr [0xD800])"
    by simp
  have seven: "str latin1_table (JInt 7) = ascii ''7''"
    by (simp add: str_def str_int_values)
  have tok: "str latin1_table (JStr [0xD800]) = [0xD800]"
    by (simp add: str_def)
  have bad: "is_surrogate 0xD800"
    by (simp add: is_surrogate_def)
  have enc: "encodable (memo @ ascii '' JWT Token: '')"
    by simp
  have len: "length (memo @ ascii '' JWT Token: '') = 13"
    by (simp add: memo_def ascii_def)
  have "encode_error (memo @ ascii '' JWT Token: '' @ [0xD800]) = UnicodeEncodeError 0xD800 13 14"
    using encode_error_last [OF enc bad] unfolding len by simp
  moreover have "escape 0xD800 = CHR 0x5C # ''ud800''"
    by (simp add: escape_def hex_4 hex_char_values)
  ultimately have err: "str_exn latin1_table (encode_error (memo @ ascii '' JWT Token: '' @ [0xD800]))
      = ascii (quoted ''utf-8'' @ '' codec can't encode character ''
           @ quoted (CHR 0x5C # ''ud800'') @ '' in position 13: surrogates not allowed'')"
    by (simp add: str_nat_13)
  from run_200_shape [of srv_surrogate resp_surrogate _ _ "JInt 7" "JStr [0xD800]" latin1_table,
      OF r s j u i t]
  have "stdout latin1_table srv_surrogate =
       [ascii ''Step 1: Registering test user...'',
        check_mark @ ascii '' User created with ID: '' @ ascii ''7'',
        cross_mark @ ascii '' Error: '' @ ascii (quoted ''utf-8'' @ '' codec can't encode character ''
           @ quoted (CHR 0x5C # ''ud800'') @ '' in position 13: surrogates not allowed'')]"
    by (simp add: stdout_def seven tok bad err)
  then have "stdout latin1_table srv_surrogate =
       [ascii ''Step 1: Registering test user...'',
        check_mark @ ascii '' User created with ID: 7'',
        cross_mark @ ascii ('' Error: '' @ quoted ''utf-8'' @ '' codec can't encode character ''
           @ quoted (CHR 0x5C # ''ud800'') @ '' in position 13: surrogates not allowed'')]"
    by (simp add: ascii_def)
  with r s j show ?thesis by simp
qed

text \<open>
  C2, amended. When the service answers status 200 with a JSON object holding a \<open>user\<close>
  object with an \<open>id\<close> and a \<open>jwt\<close>, and \<open>str\<close> of the identifier and of the token hold no
  lone surrogate, the script prints, after its first line, one line with the identifier,
  one line with the token, the two lines of the note, and the update statement with the
  same identifier between \<open>WHERE id=\<close> and the semicolon; nothing else.
\<close>

theorem C2_success_output:
  assumes "srv ''http://localhost:1341/api/auth/local/register'' register_data = Inr r"
    and "status_code r = 200"
    and "json r = Inr (JObj kvs)"
    and "map_of kvs (ascii ''user'') = Some (JObj usr)"
    and "map_of usr (ascii ''id'') = Some i"
    and "map_of kvs (ascii ''jwt'') = Some t"
    and "encodable (str isprintable i)"
    and "encodable (str isprintable t)"
  shows "stdout isprintable srv =
     [ascii ''Step 1: Registering test user...'',
      check_mark @ ascii '' User created with ID: '' @ str isprintable i,
      memo @ ascii '' JWT Token: '' @ str isprintable t,
      0x0A # warning_sign @ ascii ''  Note: User role is 'reguser' by default'',
      ascii ''To make this user a sysadmin, update the database:'',
      ascii ''UPDATE up_users SET userRole='sysadmin' WHERE id='' @ str isprintable i @ ascii '';'']"
  using run_200_shape [of srv r kvs usr i t isprintable] assms by (simp add: stdout_def)

theorem C2_success_output_witness:
  "srv_ok ''http://localhost:1341/api/auth/local/register'' register_data = Inr resp_ok
   \<and> status_code resp_ok = 200
   \<and> encodable (str latin1_table (JInt 7))
   \<and> encodable (str latin1_table (JStr (ascii ''abc'')))
   \<and> stdout latin1_table srv_ok =
     [ascii ''Step 1: Registering test user...'',
      check_mark @ ascii '' User created with ID: 7'',
      memo @ ascii '' JWT Token: abc'',
      0x0A # warning_sign @ ascii ''  Note: User role is 'reguser' by default'',
      ascii ''To make this user a sysadmin, update the database:'',
      ascii ''UPDATE up_users SET userRole='sysadmin' WHERE id=7;'']"
proof -
  have seven: "str latin1_table (JInt 7) = ascii ''7''" by (simp add: str_def str_int_values)
  have abc: "str latin1_table (JStr (ascii ''abc'')) = ascii ''abc''" by (simp add: str_def)
  have r: "srv_ok ''http://localhost:1341/api/auth/local/register'' register_data = Inr resp_ok"
    by (simp add: srv_ok_def)
  have s: "status_code resp_ok = 200" by (simp add: resp_ok_def)
  have j: "json resp_ok = Inr (JObj [(ascii ''jwt'', JStr (ascii ''abc'')),
        (ascii ''user'', JObj [(ascii ''id'', JInt 7),
           (ascii ''username'', JStr (ascii ''testsysadmin''))])])"
    by (simp add: resp_ok_def)
  have u: "map_of [(ascii ''jwt'', JStr (ascii ''abc'')),
        (ascii ''user'', JObj [(ascii ''id'', JInt 7),
           (ascii ''username'', JStr (ascii ''testsysadmin''))])] (ascii ''user'')
      = Some (JObj [(ascii ''id'', JInt 7), (ascii ''username'', JStr (ascii ''testsysadmin''))])"
    by (simp add: ascii_def)
  have i: "map_of [(ascii ''id'', JInt 7), (ascii ''username'', JStr (ascii ''testsysadmin''))]
      (ascii ''id'') = Some (JInt 7)"
    by simp
  have t: "map_of [(ascii ''jwt'', JStr (ascii ''abc'')),
        (ascii ''user'', JObj [(ascii ''id'', JInt 7),
           (ascii ''username'', JStr (ascii ''testsysadmin''))])] (ascii ''jwt'')
      = Some (JStr (ascii ''abc''))"
    by simp
  have ei: "encodable (str latin1_table (JInt 7))" by (simp add: seven)
  have et: "encodable (str latin1_table (JStr (ascii ''abc'')))" by (simp add: abc)
  from C2_success_output [of srv_ok resp_ok _ _ "JInt 7" "JStr (ascii ''abc'')" latin1_table,
      OF r s j u i t ei et]
  have "stdout latin1_table srv_ok =
     [ascii ''Step 1: Registering test user...'',
      check_mark @ ascii '' User created with ID: '' @ ascii ''7'',
      memo @ ascii '' JWT Token: '' @ ascii ''abc'',
      0x0A # warning_sign @ ascii ''  Note: User role is 'reguser' by default'',
      ascii ''To make this user a sysadmin, update the database:'',
      ascii ''UPDATE up_users SET userRole='sysadmin' WHERE id='' @ ascii ''7'' @ ascii '';'']"
    by (simp add: seven abc)
  then have "stdout latin1_table srv_ok =
     [ascii ''Step 1: Registering test user...'',
      check_mark @ ascii '' User created with ID: 7'',
      memo @ ascii '' JWT Token: abc'',
      0x0A # warning_sign @ ascii ''  Note: User role is 'reguser' by default'',
      ascii ''To make this user a sysadmin, update the database:'',
      ascii ''UPDATE up_users SET userRole='sysadmin' WHERE id=7;'']"
    by (simp add: ascii_def)
  with r s ei et show ?thesis by simp
qed

text \<open>
  C3. On a 200 response, a printed identifier line shows \<open>str\<close> of the \<open>id\<close> entry of the
  \<open>user\<close> object of the decoded body, and a printed token line shows \<open>str\<close> of its top-level
  \<open>jwt\<close> entry; either line is printed only when the decoded body is an object with a
  \<open>user\<close> object holding an \<open>id\<close> and with a \<open>jwt\<close> entry. Conversely such a body gives the
  identifier line when the console can encode the identifier, and the token line when
  it can encode the identifier and the token.
\<close>

theorem C3_fields_consumed:
  assumes "srv ''http://localhost:1341/api/auth/local/register'' register_data = Inr r"
    and "status_code r = 200"
  shows "(check_mark @ ascii '' User created with ID: '' @ x \<in> set (stdout isprintable srv)
           \<longleftrightarrow> (\<exists>kvs usr i t. json r = Inr (JObj kvs) \<and> map_of kvs (ascii ''user'') = Some (JObj usr)
                  \<and> map_of usr (ascii ''id'') = Some i \<and> map_of kvs (ascii ''jwt'') = Some t
                  \<and> x = str isprintable i \<and> encodable x))
       \<and> (memo @ ascii '' JWT Token: '' @ y \<in> set (stdout isprintable srv)
           \<longleftrightarrow> (\<exists>kvs usr i t. json r = Inr (JObj kvs) \<and> map_of kvs (ascii ''user'') = Some (JObj usr)
                  \<and> map_of usr (ascii ''id'') = Some i \<and> map_of kvs (ascii ''jwt'') = Some t
                  \<and> y = str isprintable t \<and> encodable (str isprintable i) \<and> encodable y))"
proof (cases "\<exists>kvs usr i t. json r = Inr (JObj kvs) \<and> map_of kvs (ascii ''user'') = Some (JObj usr)
            \<and> map_of usr (ascii ''id'') = Some i \<and> map_of kvs (ascii ''jwt'') = Some t")
  case True
  then obtain kvs usr i t where sh: "json r = Inr (JObj kvs)"
      "map_of kvs (ascii ''user'') = Some (JObj usr)"
      "map_of usr (ascii ''id'') = Some i" "map_of kvs (ascii ''jwt'') = Some t" by blast
  note run = run_200_shape [of srv r kvs usr i t isprintable, OF assms sh]
  have id_line: "check_mark @ ascii '' User created with ID: '' @ x \<in> set (stdout isprintable srv)
      \<longleftrightarrow> x = str isprintable i \<and> encodable x"
    using run
    by (auto simp: stdout_def check_mark_def memo_def cross_mark_def ascii_def big_neq_of_char)
  have token_line: "memo @ ascii '' JWT Token: '' @ y \<in> set (stdout isprintable srv)
      \<longleftrightarrow> y = str isprintable t \<and> encodable (str isprintable i) \<and> encodable y"
    using run
    by (auto simp: stdout_def check_mark_def memo_def cross_mark_def ascii_def big_neq_of_char)
  from sh id_line token_line show ?thesis by auto
next
  case False
  with run_200_other [of srv r isprintable] assms obtain e where
    "run isprintable srv =
       (Inr (), [Print (ascii ''Step 1: Registering test user...''), Post register_url register_data,
         Print (cross_mark @ ascii '' Error: '' @ str_exn isprintable e)])" by blast
  then have out: "stdout isprintable srv =
      [ascii ''Step 1: Registering test user...'', cross_mark @ ascii '' Error: '' @ str_exn isprintable e]"
    by (simp add: stdout_def)
  have "check_mark @ ascii '' User created with ID: '' @ x \<notin> set (stdout isprintable srv)"
    and "memo @ ascii '' JWT Token: '' @ y \<notin> set (stdout isprintable srv)"
    unfolding out
    by (simp_all add: check_mark_def memo_def cross_mark_def ascii_def big_neq_of_char)
  with False show ?thesis by blast
qed

theorem C3_fields_consumed_witness:
  "srv_ok ''http://localhost:1341/api/auth/local/register'' register_data = Inr resp_ok
   \<and> status_code resp_ok = 200
   \<and> check_mark @ ascii '' User created with ID: '' @ ascii ''7'' \<in> set (stdout latin1_table srv_ok)
   \<and> memo @ ascii '' JWT Token: '' @ ascii ''abc'' \<in> set (stdout latin1_table srv_ok)"
proof -
  have r: "srv_ok ''http://localhost:1341/api/auth/local/register'' register_data = Inr resp_ok"
    by (simp add: srv_ok_def)
  have s: "status_code resp_ok = 200" by (simp add: resp_ok_def)
  have seven: "str latin1_table (JInt 7) = ascii ''7''" by (simp add: str_def str_int_values)
  have abc: "str latin1_table (JStr (ascii ''abc'')) = ascii ''abc''" by (simp add: str_def)
  let ?usr = "[(ascii ''id'', JInt 7), (ascii ''username'', JStr (ascii ''testsysadmin''))]"
  let ?kvs = "[(ascii ''jwt'', JStr (ascii ''abc'')), (ascii ''user'', JObj ?usr)]"
  have sh: "json resp_ok = Inr (JObj ?kvs) \<and> map_of ?kvs (ascii ''user'') = Some (JObj ?usr)
      \<and> map_of ?usr (ascii ''id'') = Some (JInt 7) \<and> map_of ?kvs (ascii ''jwt'') = Some (JStr (ascii ''abc''))"
    by (simp add: resp_ok_def ascii_def)
  have a: "\<exists>kvs usr i t. json resp_ok = Inr (JObj kvs) \<and> map_of kvs (ascii ''user'') = Some (JObj usr)
      \<and> map_of usr (ascii ''id'') = Some i \<and> map_of kvs (ascii ''jwt'') = Some t
      \<and> ascii ''7'' = str latin1_table i \<and> encodable (ascii ''7'')"
    using sh seven by (intro exI [of _ ?kvs] exI [of _ ?usr] exI [of _ "JInt 7"]
        exI [of _ "JStr (ascii ''abc'')"]) simp
  have b: "\<exists>kvs usr i t. json resp_ok = Inr (JObj kvs) \<and> map_of kvs (ascii ''user'') = Some (JObj usr)
      \<and> map_of usr (ascii ''id'') = Some i \<and> map_of kvs (ascii ''jwt'') = Some t
      \<and> ascii ''abc'' = str latin1_table t \<and> encodable (str latin1_table i) \<and> encodable (ascii ''abc'')"
    using sh seven abc by (intro exI [of _ ?kvs] exI [of _ ?usr] exI [of _ "JInt 7"]
        exI [of _ "JStr (ascii ''abc'')"]) simp
  from C3_fields_consumed [of srv_ok resp_ok "ascii ''7''" latin1_table "ascii ''abc''", OF r s] a b r s
  show ?thesis by blast
qed


text \<open>
  C4, as the claim words it, fails: on status 201 with the body
  \<open>{"jwt":"abc","user":{"id":7}}\<close> the script prints the status line and then \<open>str\<close> of the
  decoded dict, in Python's notation. The raw body is on no printed line, and the access
  token \<open>abc\<close> of the body is on the last one.
\<close>

theorem C4_raw_body_counterexample:
  "srv_created ''http://localhost:1341/api/auth/local/register'' register_data = Inr resp_created
   \<and> status_code resp_created \<noteq> 200
   \<and> json resp_created = Inr (JObj [(ascii ''jwt'', JStr (ascii ''abc'')),
         (ascii ''user'', JObj [(ascii ''id'', JInt 7)])])
   \<and> stdout latin1_table srv_created =
       [ascii ''Step 1: Registering test user...'',
        cross_mark @ ascii '' Registration failed: 201'',
        ascii ''{'jwt': 'abc', 'user': {'id': 7}}'']
   \<and> body_text resp_created \<notin> set (stdout latin1_table srv_created)
   \<and> occurs_in (ascii ''abc'') (stdout latin1_table srv_created ! 2)"
proof -
  have r: "srv_created register_url register_data = Inr resp_created"
    by (simp add: srv_created_def)
  have s: "status_code resp_created \<noteq> 200"
    by (simp add: resp_created_def)
  have c: "status_code resp_created = 201"
    by (simp add: resp_created_def)
  have j: "json resp_created = Inr (JObj [(ascii ''jwt'', JStr (ascii ''abc'')),
         (ascii ''user'', JObj [(ascii ''id'', JInt 7)])])"
    by (simp add: resp_created_def)
  have line: "str latin1_table (JObj [(ascii ''jwt'', JStr (ascii ''abc'')),
         (ascii ''user'', JObj [(ascii ''id'', JInt 7)])]) = ascii ''{'jwt': 'abc', 'user': {'id': 7}}''"
    by (simp add: str_def repr_str_def repr_char_def Let_def str_int_values ascii_def)
  have "stdout latin1_table srv_created =
       [ascii ''Step 1: Registering test user...'',
        cross_mark @ ascii '' Registration failed: '' @ ascii ''201'',
        ascii ''{'jwt': 'abc', 'user': {'id': 7}}'']"
    using run_not_200 [of srv_created resp_created latin1_table, OF r s]
    by (simp add: stdout_def j c line str_int_values)
  then have out: "stdout latin1_table srv_created =
       [ascii ''Step 1: Registering test user...'',
        cross_mark @ ascii '' Registration failed: 201'',
        ascii ''{'jwt': 'abc', 'user': {'id': 7}}'']"
    by (simp add: ascii_def)
  have absent: "body_text resp_created \<notin> set (stdout latin1_table srv_created)"
    unfolding out by (simp add: resp_created_def cross_mark_def dq_def ascii_def)
  have shown: "occurs_in (ascii ''abc'') (stdout latin1_table srv_created ! 2)"
    unfolding out by (simp add: ascii_def)
  from r s j out absent shown show ?thesis by simp
qed

text \<open>
  C4, amended. For every response whose status is not 200 the script prints, after its
  first line, the line \<open>Registration failed:\<close> with the status code and then one more
  line. When \<open>json()\<close> decodes the body, that line is \<open>str\<close> of the decoded value, in Python's
  notation and with all the body holds (a token included), or, when that text holds a
  lone surrogate, the \<open>Error:\<close> line of the \<open>UnicodeEncodeError\<close>. When \<open>json()\<close> raises, it is the
  \<open>Error:\<close> line with the decoder's message.
\<close>

theorem C4_non_200_output:
  assumes "srv ''http://localhost:1341/api/auth/local/register'' register_data = Inr r"
    and "status_code r \<noteq> 200"
  shows "stdout isprintable srv =
     [ascii ''Step 1: Registering test user...'',
      cross_mark @ ascii '' Registration failed: '' @ ascii (str_int (status_code r)),
      (case json r of
         Inl e \<Rightarrow> cross_mark @ ascii '' Error: '' @ str_exn isprintable e
       | Inr v \<Rightarrow>
           if encodable (str isprintable v) then str isprintable v
           else cross_mark @ ascii '' Error: ''
                  @ str_exn isprintable (encode_error (str isprintable v)))]"
  using run_not_200 [of srv r isprintable] assms by (simp add: stdout_def)

theorem C4_non_200_output_witness:
  "srv_taken ''http://localhost:1341/api/auth/local/register'' register_data = Inr resp_taken
   \<and> status_code resp_taken \<noteq> 200
   \<and> json resp_taken = Inr (JObj [(ascii ''data'', JNull),
        (ascii ''message'', JStr (ascii ''already'' @ 0xA0 # ascii ''taken''))])
   \<and> stdout latin1_table srv_taken =
     [ascii ''Step 1: Registering test user...'',
      cross_mark @ ascii '' Registration failed: 400'',
      ascii (''{'data': None, 'message': 'already'' @ CHR 0x5C # ''xa0taken'}'')]"
proof -
  have r: "srv_taken ''http://localhost:1341/api/auth/local/register'' register_data = Inr resp_taken"
    by (simp add: srv_taken_def)
  have s: "status_code resp_taken \<noteq> 200"
    by (simp add: resp_taken_def)
  have c: "status_code resp_taken = 400"
    by (simp add: resp_taken_def)
  have j: "json resp_taken = Inr (JObj [(ascii ''data'', JNull),
        (ascii ''message'', JStr (ascii ''already'' @ 0xA0 # ascii ''taken''))])"
    by (simp add: resp_taken_def)
  have esc: "escape 0xA0 = CHR 0x5C # ''xa0''"
    by (simp add: escape_def hex_2 hex_char_values)
  have line: "str latin1_table (JObj [(ascii ''data'', JNull),
        (ascii ''message'', JStr (ascii ''already'' @ 0xA0 # ascii ''taken''))])
      = ascii (''{'data': None, 'message': 'already'' @ CHR 0x5C # ''xa0taken'}'')"
    by (simp add: str_def repr_str_def repr_char_def Let_def latin1_table_def esc ascii_def)
  from C4_non_200_output [of srv_taken resp_taken latin1_table, OF r s]
  have "stdout latin1_table srv_taken =
     [ascii ''Step 1: Registering test user...'',
      cross_mark @ ascii '' Registration failed: '' @ ascii ''400'',
      ascii (''{'data': None, 'message': 'already'' @ CHR 0x5C # ''xa0taken'}'')]"
    by (simp add: j c line str_int_values)
  then have "stdout latin1_table srv_taken =
     [ascii ''Step 1: Registering test user...'',
      cross_mark @ ascii '' Registration failed: 400'',
      ascii (''{'data': None, 'message': 'already'' @ CHR 0x5C # ''xa0taken'}'')]"
    by (simp add: ascii_def)
  with r s j show ?thesis by simp
qed




text \<open>
  C7. The trace of every run is: the first print, the one POST, and after it prints
  only. So exactly one request is issued, none is repeated in any branch, and apart from
  that request every effect of the script is a line on the console.
\<close>

theorem C7_one_request_then_prints:
  "snd (run isprintable srv) =
     Print (ascii ''Step 1: Registering test user...'')
       # Post ''http://localhost:1341/api/auth/local/register'' register_data
       # map Print (tl (stdout isprintable srv))
   \<and> length (requests_sent isprintable srv) = 1"
proof -
  obtain out where "run isprintable srv = (Inr (), Print (ascii ''Step 1: Registering test user...'')
       # Post register_url register_data # map Print out)"
    using run_trace [of isprintable srv] ..
  then show ?thesis
    by (simp add: stdout_def requests_sent_def printed_map_Print posted_map_Print)
qed

text \<open>
  C8. The request does not depend on the service, and a run reads the service only at
  that request: two services that give the same outcome there (the same response, or
  the same exception) send the same request, print the same lines and end the same way,
  however they differ elsewhere.
\<close>

theorem C8_output_determined_by_response:
  assumes "srv1 ''http://localhost:1341/api/auth/local/register'' register_data
         = srv2 ''http://localhost:1341/api/auth/local/register'' register_data"
  shows "requests_sent isprintable srv1 = [(''http://localhost:1341/api/auth/local/register'', register_data)]
     \<and> requests_sent isprintable srv2 = [(''http://localhost:1341/api/auth/local/register'', register_data)]
     \<and> stdout isprintable srv1 = stdout isprintable srv2
     \<and> exit_code isprintable srv1 = exit_code isprintable srv2"
proof -
  obtain out where "run isprintable srv1 = (Inr (), Print (ascii ''Step 1: Registering test user...'')
       # Post register_url register_data # map Print out)"
    using run_trace [of isprintable srv1] ..
  moreover from assms have "run isprintable srv2 = run isprintable srv1"
    by (simp add: main_eq)
  ultimately show ?thesis
    by (simp add: requests_sent_def stdout_def exit_code_def posted_map_Print)
qed

theorem C8_output_determined_by_response_witness:
  "srv_strict ''http://localhost:1341/api/auth/local/register'' register_data
     = srv_taken ''http://localhost:1341/api/auth/local/register'' register_data
   \<and> srv_strict \<noteq> srv_taken
   \<and> requests_sent latin1_table srv_strict
       = [(''http://localhost:1341/api/auth/local/register'', register_data)]
   \<and> requests_sent latin1_table srv_taken
       = [(''http://localhost:1341/api/auth/local/register'', register_data)]
   \<and> stdout latin1_table srv_strict = stdout latin1_table srv_taken
   \<and> exit_code latin1_table srv_strict = exit_code latin1_table srv_taken"
proof -
  have same: "srv_strict ''http://localhost:1341/api/auth/local/register'' register_data
     = srv_taken ''http://localhost:1341/api/auth/local/register'' register_data"
    by (simp add: srv_strict_def srv_taken_def)
  have "srv_strict [] JNull \<noteq> srv_taken [] JNull"
    by (simp add: srv_strict_def srv_taken_def)
  then have "srv_strict \<noteq> srv_taken"
    by metis
  with C8_output_determined_by_response [of srv_strict srv_taken latin1_table, OF same] same
  show ?thesis by simp
qed

text \<open>
  C9. On status 200, when the body does not decode, or the decoded value is not an object
  with a \<open>user\<close> object holding an \<open>id\<close> and with a \<open>jwt\<close> entry (so also when one of the three
  keys is missing), the script prints its first line and one \<open>Error:\<close> line and nothing
  else: no identifier, no token, no reminder. No exception leaves the module.
\<close>

theorem C9_bad_success_body:
  assumes "srv ''http://localhost:1341/api/auth/local/register'' register_data = Inr r"
    and "status_code r = 200"
    and "\<not> (\<exists>kvs usr i t. json r = Inr (JObj kvs) \<and> map_of kvs (ascii ''user'') = Some (JObj usr)
          \<and> map_of usr (ascii ''id'') = Some i \<and> map_of kvs (ascii ''jwt'') = Some t)"
  shows "(\<exists>e. stdout isprintable srv =
            [ascii ''Step 1: Registering test user...'',
             cross_mark @ ascii '' Error: '' @ str_exn isprintable e])
     \<and> fst (run isprintable srv) = Inr ()"
proof -
  from run_200_other [of srv r isprintable] assms obtain e where
    "run isprintable srv =
       (Inr (), [Print (ascii ''Step 1: Registering test user...''), Post register_url register_data,
         Print (cross_mark @ ascii '' Error: '' @ str_exn isprintable e)])" by blast
  then have "stdout isprintable srv =
      [ascii ''Step 1: Registering test user...'', cross_mark @ ascii '' Error: '' @ str_exn isprintable e]"
    and "fst (run isprintable srv) = Inr ()"
    by (simp_all add: stdout_def)
  then show ?thesis by blast
qed

theorem C9_bad_success_body_witness:
  "srv_no_jwt ''http://localhost:1341/api/auth/local/register'' register_data = Inr resp_no_jwt
   \<and> status_code resp_no_jwt = 200
   \<and> json resp_no_jwt = Inr (JObj [(ascii ''user'', JObj [(ascii ''id'', JInt 7)])])
   \<and> map_of [(ascii ''user'', JObj [(ascii ''id'', JInt 7)])] (ascii ''jwt'') = None
   \<and> (\<exists>e. stdout latin1_table srv_no_jwt =
          [ascii ''Step 1: Registering test user...'',
           cross_mark @ ascii '' Error: '' @ str_exn latin1_table e])
   \<and> stdout latin1_table srv_no_jwt =
          [ascii ''Step 1: Registering test user...'', cross_mark @ ascii ('' Error: '' @ quoted ''jwt'')]
   \<and> fst (run latin1_table srv_no_jwt) = Inr ()"
proof -
  have r: "srv_no_jwt ''http://localhost:1341/api/auth/local/register'' register_data = Inr resp_no_jwt"
    by (simp add: srv_no_jwt_def)
  have s: "status_code resp_no_jwt = 200"
    by (simp add: resp_no_jwt_def)
  have j: "json resp_no_jwt = Inr (JObj [(ascii ''user'', JObj [(ascii ''id'', JInt 7)])])"
    by (simp add: resp_no_jwt_def)
  have m: "map_of [(ascii ''user'', JObj [(ascii ''id'', JInt 7)])] (ascii ''jwt'') = None"
    by (simp add: ascii_def)
  have n: "\<not> (\<exists>kvs usr i t. json resp_no_jwt = Inr (JObj kvs) \<and> map_of kvs (ascii ''user'') = Some (JObj usr)
          \<and> map_of usr (ascii ''id'') = Some i \<and> map_of kvs (ascii ''jwt'') = Some t)"
    using m by (auto simp: j)
  have k: "repr_str latin1_table (ascii ''jwt'') = ascii (quoted ''jwt'')"
    by (simp add: repr_str_def repr_char_def Let_def quoted_def ascii_def)
  have "stdout latin1_table srv_no_jwt =
      [ascii ''Step 1: Registering test user...'', cross_mark @ ascii '' Error: '' @ ascii (quoted ''jwt'')]"
    using m by (simp add: stdout_def main_eq r s j on_success_def handler_eq py_defs k)
  then have out: "stdout latin1_table srv_no_jwt =
      [ascii ''Step 1: Registering test user...'', cross_mark @ ascii ('' Error: '' @ quoted ''jwt'')]"
    by (simp add: ascii_def)
  from C9_bad_success_body [of srv_no_jwt resp_no_jwt latin1_table, OF r s n] r s j m out show ?thesis
    by simp
qed

text \<open>
  C10. For a response whose status is not 200 and whose body \<open>json()\<close> cannot decode, the
  script prints its first line, then the \<open>Registration failed:\<close> line with the status code,
  then the \<open>Error:\<close> line with the message of the decoding exception. These are all the
  lines, and none of them is built from the raw body.
\<close>

theorem C10_undecodable_failure_body:
  assumes "srv ''http://localhost:1341/api/auth/local/register'' register_data = Inr r"
    and "status_code r \<noteq> 200"
    and "json r = Inl e"
  shows "stdout isprintable srv =
     [ascii ''Step 1: Registering test user...'',
      cross_mark @ ascii '' Registration failed: '' @ ascii (str_int (status_code r)),
      cross_mark @ ascii '' Error: '' @ str_exn isprintable e]"
  using run_not_200 [of srv r isprintable] assms by (simp add: stdout_def)

theorem C10_undecodable_failure_body_witness:
  "srv_gateway ''http://localhost:1341/api/auth/local/register'' register_data = Inr resp_gateway
   \<and> status_code resp_gateway \<noteq> 200
   \<and> json resp_gateway = Inl (JSONDecodeError ''Expecting value: line 1 column 1 (char 0)'')
   \<and> stdout latin1_table srv_gateway =
     [ascii ''Step 1: Registering test user...'',
      cross_mark @ ascii '' Registration failed: 502'',
      cross_mark @ ascii '' Error: Expecting value: line 1 column 1 (char 0)'']
   \<and> body_text resp_gateway \<notin> set (stdout latin1_table srv_gateway)"
proof -
  have r: "srv_gateway ''http://localhost:1341/api/auth/local/register'' register_data = Inr resp_gateway"
    by (simp add: srv_gateway_def)
  have s: "status_code resp_gateway \<noteq> 200"
    by (simp add: resp_gateway_def)
  have j: "json resp_gateway = Inl (JSONDecodeError ''Expecting value: line 1 column 1 (char 0)'')"
    by (simp add: resp_gateway_def)
  have c: "status_code resp_gateway = 502"
    by (simp add: resp_gateway_def)
  from C10_undecodable_failure_body [of srv_gateway resp_gateway
      "JSONDecodeError ''Expecting value: line 1 column 1 (char 0)''" latin1_table, OF r s j]
  have out: "stdout latin1_table srv_gateway =
     [ascii ''Step 1: Registering test user...'',
      cross_mark @ ascii '' Registration failed: 502'',
      cross_mark @ ascii '' Error: Expecting value: line 1 column 1 (char 0)'']"
    by (simp add: c str_int_values ascii_def)
  have "body_text resp_gateway \<notin> set (stdout latin1_table srv_gateway)"
    unfolding out by (simp add: resp_gateway_def cross_mark_def ascii_def)
  with out r s j show ?thesis by simp
qed

end
